theory Spec2Isabelle
  imports Main
begin

section \<open>Python values, exceptions and string methods\<close>

text \<open>
  The provider's response is decoded JSON: Python \<open>None\<close>, booleans, numbers, strings,
  lists and dicts with string keys. No operation of the program inspects a number, so a
  number is kept by an integer. A dict is an association list that is read with
  \<open>map_of\<close>. A string is a list of characters, one per code point.
\<close>

datatype json =
    JNull
  | JBool bool
  | JNum int
  | JStr string
  | JList "json list"
  | JDict "(string \<times> json) list"

text \<open>
  The exceptions of the program. The first five are raised by the interpreter and by
  \<open>datetime.fromisoformat\<close>; \<open>LibraryError msg\<close> is any \<open>Exception\<close> raised by one
  of the external clients (pricing provider, spreadsheet, chat channel), \<open>msg\<close> being
  \<open>str(e)\<close>. Every value of the type is an instance of \<open>Exception\<close>.
\<close>

datatype py_exception =
    KeyError
  | IndexError
  | ValueError
  | TypeError
  | AttributeError
  | LibraryError string

text \<open>\<open>v[k]\<close> for a string key \<open>k\<close>: only a dict can be subscripted by a string.\<close>

fun getitem_str :: "json \<Rightarrow> string \<Rightarrow> py_exception + json" where
  "getitem_str (JDict kvs) k = (case map_of kvs k of None \<Rightarrow> Inl KeyError | Some v \<Rightarrow> Inr v)"
| "getitem_str JNull k = Inl TypeError"
| "getitem_str (JBool b) k = Inl TypeError"
| "getitem_str (JNum n) k = Inl TypeError"
| "getitem_str (JStr s) k = Inl TypeError"
| "getitem_str (JList xs) k = Inl TypeError"

text \<open>
  \<open>v[0]\<close>: the first element of a list or the first character of a string
  (\<open>IndexError\<close> when empty); a dict decoded from JSON has no key \<open>0\<close>.
\<close>

fun getitem_0 :: "json \<Rightarrow> py_exception + json" where
  "getitem_0 (JList []) = Inl IndexError"
| "getitem_0 (JList (x # xs)) = Inr x"
| "getitem_0 (JStr []) = Inl IndexError"
| "getitem_0 (JStr (c # cs)) = Inr (JStr [c])"
| "getitem_0 (JDict kvs) = Inl KeyError"
| "getitem_0 JNull = Inl TypeError"
| "getitem_0 (JBool b) = Inl TypeError"
| "getitem_0 (JNum n) = Inl TypeError"

text \<open>\<open>str.ljust(n)\<close> and \<open>str.rjust(n)\<close> pad with spaces and never cut the string.\<close>

definition ljust :: "nat \<Rightarrow> string \<Rightarrow> string" where
  "ljust n s = s @ replicate (n - length s) (CHR '' '')"

definition rjust :: "nat \<Rightarrow> string \<Rightarrow> string" where
  "rjust n s = replicate (n - length s) (CHR '' '') @ s"

text \<open>A string method called on a value that is not a string raises \<open>AttributeError\<close>.\<close>

fun str_method :: "(string \<Rightarrow> string) \<Rightarrow> json \<Rightarrow> py_exception + string" where
  "str_method m (JStr s) = Inr (m s)"
| "str_method m JNull = Inl AttributeError"
| "str_method m (JBool b) = Inl AttributeError"
| "str_method m (JNum n) = Inl AttributeError"
| "str_method m (JList xs) = Inl AttributeError"
| "str_method m (JDict kvs) = Inl AttributeError"

text \<open>\<open>s.replace('Z', '+00:00')\<close>: every occurrence of the character is replaced.\<close>

definition replace_Z :: "string \<Rightarrow> string" where
  "replace_Z s = concat (map (\<lambda>c. if c = CHR ''Z'' then ''+00:00'' else [c]) s)"

text \<open>\<open>sep.join(xs)\<close>.\<close>

fun join :: "string \<Rightarrow> string list \<Rightarrow> string" where
  "join sep [] = []"
| "join sep [x] = x"
| "join sep (x # y # ys) = x @ sep @ join sep (y # ys)"

text \<open>\<open>s.split(',')\<close>: one piece more than there are separators.\<close>

fun split :: "char \<Rightarrow> string \<Rightarrow> string list" where
  "split sep [] = [[]]"
| "split sep (c # cs) =
     (if c = sep then [] # split sep cs
      else (c # hd (split sep cs)) # tl (split sep cs))"

text \<open>\<open>s.strip()\<close>: whitespace is removed at both ends.\<close>

definition isspace :: "char \<Rightarrow> bool" where
  "isspace c = (c \<in> set [CHR 0x09, CHR 0x0A, CHR 0x0B, CHR 0x0C, CHR 0x0D,
                           CHR 0x1C, CHR 0x1D, CHR 0x1E, CHR 0x1F, CHR 0x20,
                           CHR 0x85, CHR 0xA0])"

definition strip :: "string \<Rightarrow> string" where
  "strip s = rev (dropWhile isspace (rev (dropWhile isspace s)))"

text \<open>\<open>str(n)\<close> for a count: the decimal digits.\<close>

definition digit :: "nat \<Rightarrow> char" where
  "digit d = char_of (48 + d)"

fun str_nat :: "nat \<Rightarrow> string" where
  "str_nat n = (if n < 10 then [digit n] else str_nat (n div 10) @ [digit (n mod 10)])"

declare str_nat.simps [simp del]

text \<open>Sequencing of two evaluations, the first exception ending the evaluation.\<close>

definition bind :: "py_exception + 'a \<Rightarrow> ('a \<Rightarrow> py_exception + 'b) \<Rightarrow> py_exception + 'b" where
  "bind m f = (case m of Inl e \<Rightarrow> Inl e | Inr v \<Rightarrow> f v)"

section \<open>The row transformer\<close>

text \<open>
  \<open>datetime.fromisoformat\<close> (\<open>None\<close>: it raises \<open>ValueError\<close>) and
  \<open>strftime('%Y-%m-%d %H:%M:%S')\<close> belong to the standard library and are parameters.
\<close>

record 'dt datetime_lib =
  fromisoformat :: "string \<Rightarrow> 'dt option"
  strftime :: "'dt \<Rightarrow> string"

text \<open>
  The first half of the body of the \<open>try\<close>: the three lookups, then the f-string of the
  display row, whose three method calls are evaluated from left to right.
\<close>

definition discord_row :: "string \<Rightarrow> string \<Rightarrow> string \<Rightarrow> string" where
  "discord_row i b a = i @ ''| '' @ b @ '' | '' @ a"

definition first_price :: "json \<Rightarrow> string \<Rightarrow> py_exception + json" where
  "first_price price_data side =
     bind (getitem_str price_data side) (\<lambda>xs.
     bind (getitem_0 xs) (\<lambda>x. getitem_str x ''price''))"

definition display_part :: "json \<Rightarrow> py_exception + (json \<times> json \<times> json \<times> string)" where
  "display_part price_data =
     bind (getitem_str price_data ''instrument'') (\<lambda>instrument.
     bind (first_price price_data ''bids'') (\<lambda>bid_price.
     bind (first_price price_data ''asks'') (\<lambda>ask_price.
     bind (str_method (ljust 10) instrument) (\<lambda>i.
     bind (str_method (rjust 10) bid_price) (\<lambda>b.
     bind (str_method (rjust 10) ask_price) (\<lambda>a.
       Inr (instrument, bid_price, ask_price, discord_row i b a)))))))"

text \<open>
  The second half: the timestamp is read, rewritten, parsed and formatted, then the
  status is read while the list of the row is built.
\<close>

definition sheet_part ::
  "'dt datetime_lib \<Rightarrow> json \<Rightarrow> json \<Rightarrow> json \<Rightarrow> json \<Rightarrow> py_exception + json list" where
  "sheet_part lib price_data instrument bid_price ask_price =
     bind (getitem_str price_data ''time'') (\<lambda>t.
     bind (str_method replace_Z t) (\<lambda>t'.
       (case fromisoformat lib t' of
          None \<Rightarrow> Inl ValueError
        | Some dt_object \<Rightarrow>
            bind (getitem_str price_data ''status'') (\<lambda>status.
              Inr [instrument, JStr (strftime lib dt_object), status, bid_price, ask_price]))))"

text \<open>
  The body of the \<open>try\<close> on the two lists of the cycle: the display row is appended
  before the timestamp is read, so it stays when the second half raises.
\<close>

type_synonym rows = "json list list \<times> string list"

definition try_body :: "'dt datetime_lib \<Rightarrow> json \<Rightarrow> rows \<Rightarrow> rows \<times> py_exception option" where
  "try_body lib price_data st =
     (case st of (all_rows_for_gsheet, table_rows_for_discord) \<Rightarrow>
       (case display_part price_data of
          Inl e \<Rightarrow> ((all_rows_for_gsheet, table_rows_for_discord), Some e)
        | Inr (instrument, bid_price, ask_price, row) \<Rightarrow>
            (case sheet_part lib price_data instrument bid_price ask_price of
               Inl e \<Rightarrow> ((all_rows_for_gsheet, table_rows_for_discord @ [row]), Some e)
             | Inr gsheet_row \<Rightarrow>
                 ((all_rows_for_gsheet @ [gsheet_row], table_rows_for_discord @ [row]), None))))"

section \<open>Configuration, log records, embeds and the external world\<close>

text \<open>The environment variables the cycle reads.\<close>

record config =
  OANDA_ACCOUNT_ID :: string
  GOOGLE_SHEET_NAME :: string
  INSTRUMENTS_STR :: string

text \<open>\<open>INSTRUMENTS_LIST = [inst.strip() for inst in INSTRUMENTS_STR.split(',')]\<close>\<close>

definition INSTRUMENTS_LIST :: "config \<Rightarrow> string list" where
  "INSTRUMENTS_LIST cfg = map strip (split (CHR '','') (INSTRUMENTS_STR cfg))"

datatype Color = green | orange | red

text \<open>A \<open>discord.Embed\<close>; a field is its name, its value and its \<open>inline\<close> flag.\<close>

record 'dt Embed =
  title :: string
  description :: "string option"
  color :: Color
  timestamp :: "'dt option"
  embed_fields :: "(string \<times> string \<times> bool) list"
  footer :: "string option"

datatype log_level = INFO | WARNING | ERROR

text \<open>
  What a cycle does to the outside, in order. The message of a log record is its text,
  followed by \<open>str(e)\<close> when it carries an exception.
\<close>

datatype 'dt event =
    Logging log_level string "py_exception option"
  | OandaRequest string string
  | SheetOpen string
  | AppendRows "json list list"
  | ChannelSend "'dt Embed"

text \<open>
  What the outside answers during one cycle: whether \<open>bot.get_channel\<close> finds the
  channel, what \<open>oanda_api.request\<close> returns (\<open>Inl msg\<close>: it raises, with \<open>str(e) = msg\<close>),
  whether \<open>bot.gspread_client\<close> is set, whether \<open>client.open(name).sheet1\<close>,
  \<open>sheet.append_rows\<close> and \<open>channel.send\<close> raise, and \<open>datetime.utcnow()\<close>.
\<close>

record 'dt env =
  get_channel :: bool
  oanda_request :: "string + json"
  gspread_client :: bool
  sheet_open :: "string \<Rightarrow> string option"
  append_rows :: "json list list \<Rightarrow> string option"
  channel_send :: "'dt Embed \<Rightarrow> string option"
  utcnow :: "'dt"

text \<open>A computation: the events it caused, and its value or the exception it raised.\<close>

type_synonym ('dt, 'a) io = "'dt event list \<times> (py_exception + 'a)"

definition io_bind :: "('dt, 'a) io \<Rightarrow> ('a \<Rightarrow> ('dt, 'b) io) \<Rightarrow> ('dt, 'b) io" where
  "io_bind m f =
     (case m of
        (tr, Inl e) \<Rightarrow> (tr, Inl e)
      | (tr, Inr v) \<Rightarrow> (case f v of (tr', r) \<Rightarrow> (tr @ tr', r)))"

text \<open>\<open>try: body except <classes> as e: handler\<close>\<close>

definition try_except ::
  "(py_exception \<Rightarrow> bool) \<Rightarrow> ('dt, 'a) io \<Rightarrow> (py_exception \<Rightarrow> ('dt, 'a) io) \<Rightarrow> ('dt, 'a) io" where
  "try_except caught body handler =
     (case body of
        (tr, Inr v) \<Rightarrow> (tr, Inr v)
      | (tr, Inl e) \<Rightarrow>
          (if caught e then (case handler e of (tr', r) \<Rightarrow> (tr @ tr', r))
           else (tr, Inl e)))"

text \<open>\<open>except Exception\<close> catches every exception of the model.\<close>

definition except_Exception :: "py_exception \<Rightarrow> bool" where
  "except_Exception e = True"

text \<open>\<open>except (KeyError, IndexError, ValueError)\<close>\<close>

definition except_parse :: "py_exception \<Rightarrow> bool" where
  "except_parse e = (e = KeyError \<or> e = IndexError \<or> e = ValueError)"

section \<open>The spreadsheet sink\<close>

text \<open>
  The body of the \<open>try\<close> of \<open>append_bulk_to_sheet\<close>; \<open>client\<close> is \<open>False\<close> for \<open>None\<close>,
  on which the attribute \<open>open\<close> is missing. \<open>ok\<close> is the log record written after the
  append, if the version writes one.
\<close>

definition append_body ::
  "'dt env \<Rightarrow> 'dt event list \<Rightarrow> bool \<Rightarrow> string \<Rightarrow> json list list \<Rightarrow> ('dt, nat) io" where
  "append_body world ok client sheet_name data_rows =
     (if client then
        (case sheet_open world sheet_name of
           Some m \<Rightarrow> ([SheetOpen sheet_name], Inl (LibraryError m))
         | None \<Rightarrow>
             (case append_rows world data_rows of
                Some m \<Rightarrow> ([SheetOpen sheet_name, AppendRows data_rows], Inl (LibraryError m))
              | None \<Rightarrow>
                  ([SheetOpen sheet_name, AppendRows data_rows] @ ok, Inr (length data_rows))))
      else ([], Inl AttributeError))"

text \<open>\<open>append_bulk_to_sheet\<close> of \<open>oanda_gsheets_bot2.1.py\<close>.\<close>

definition append_bulk_to_sheet ::
  "'dt env \<Rightarrow> bool \<Rightarrow> string \<Rightarrow> json list list \<Rightarrow> ('dt, nat) io" where
  "append_bulk_to_sheet world client sheet_name data_rows =
     (if data_rows = [] then ([], Inr 0)
      else try_except except_Exception
        (append_body world
           [Logging INFO (''Successfully appended '' @ str_nat (length data_rows)
              @ '' rows to Google Sheet.'') None]
           client sheet_name data_rows)
        (\<lambda>e. ([Logging ERROR ''Google Sheet bulk append failed: '' (Some e)], Inr 0)))"

text \<open>\<open>append_bulk_to_sheet\<close> of \<open>oanda_gsheets_bot3.py\<close>.\<close>

definition append_bulk_to_sheet3 ::
  "'dt env \<Rightarrow> bool \<Rightarrow> string \<Rightarrow> json list list \<Rightarrow> ('dt, nat) io" where
  "append_bulk_to_sheet3 world client sheet_name data_rows =
     (if data_rows = [] then ([], Inr 0)
      else try_except except_Exception
        (append_body world [] client sheet_name data_rows)
        (\<lambda>e. ([Logging ERROR ''GSheet append failed: '' (Some e)], Inr 0)))"

section \<open>The cycle\<close>

text \<open>\<open>d.get(k, default)\<close>: only a dict has the method.\<close>

fun dict_get :: "json \<Rightarrow> string \<Rightarrow> json \<Rightarrow> py_exception + json" where
  "dict_get (JDict kvs) k d = Inr (case map_of kvs k of None \<Rightarrow> d | Some v \<Rightarrow> v)"
| "dict_get JNull k d = Inl AttributeError"
| "dict_get (JBool b) k d = Inl AttributeError"
| "dict_get (JNum n) k d = Inl AttributeError"
| "dict_get (JStr s) k d = Inl AttributeError"
| "dict_get (JList xs) k d = Inl AttributeError"

text \<open>
  What a \<open>for\<close> loop iterates over: the elements of a list, the characters of a string,
  the keys of a dict; nothing else is iterable.
\<close>

fun py_iter :: "json \<Rightarrow> py_exception + json list" where
  "py_iter (JList xs) = Inr xs"
| "py_iter (JStr s) = Inr (map (\<lambda>c. JStr [c]) s)"
| "py_iter (JDict kvs) = Inr (map (\<lambda>kv. JStr (fst kv)) kvs)"
| "py_iter JNull = Inl TypeError"
| "py_iter (JBool b) = Inl TypeError"
| "py_iter (JNum n) = Inl TypeError"

text \<open>\<open>response.get('prices', [])\<close>, as the loop reads it.\<close>

definition prices_of :: "json \<Rightarrow> py_exception + json list" where
  "prices_of response = bind (dict_get response ''prices'' (JList [])) py_iter"

text \<open>
  The \<open>for\<close> loop over the price records: \<open>caught\<close> is the \<open>except\<close> clause of the
  version and \<open>text\<close> its warning. An exception that is not caught ends the loop and
  leaves the cycle; the two lists are returned as they are at that moment.
\<close>

fun price_loop ::
  "(py_exception \<Rightarrow> bool) \<Rightarrow> string \<Rightarrow> 'dt datetime_lib \<Rightarrow> json list \<Rightarrow> rows
     \<Rightarrow> 'dt event list \<times> rows \<times> py_exception option" where
  "price_loop caught text lib [] st = ([], st, None)"
| "price_loop caught text lib (price_data # rest) st =
     (case try_body lib price_data st of
        (st', None) \<Rightarrow> price_loop caught text lib rest st'
      | (st', Some e) \<Rightarrow>
          (if caught e then
             (case price_loop caught text lib rest st' of
                (tr, r) \<Rightarrow> (Logging WARNING text (Some e) # tr, r))
           else ([], st', Some e)))"

text \<open>The table of the report.\<close>

definition newline :: string where
  "newline = [CHR 0x0A]"

definition fence :: string where
  "fence = replicate 3 (CHR 0x60)"

definition header :: string where
  "header = ljust 10 ''Instrument'' @ ''| '' @ rjust 11 ''BID'' @ '' | '' @ rjust 11 ''ASK''"

definition separator :: string where
  "separator = replicate (length header) (CHR ''-'')"

definition full_table :: "string list \<Rightarrow> string" where
  "full_table table_rows_for_discord =
     fence @ newline @ header @ newline @ separator @ newline
       @ join newline table_rows_for_discord @ newline @ fence"

text \<open>A count between backquotes, the value of a summary field.\<close>

definition counter :: "nat \<Rightarrow> string" where
  "counter n = [CHR 0x60] @ str_nat n @ [CHR 0x60]"

text \<open>Step 4 of \<open>oanda_gsheets_bot2.1.py\<close>: the embed of the report.\<close>

definition report_embed ::
  "config \<Rightarrow> 'dt \<Rightarrow> nat \<Rightarrow> json list list \<Rightarrow> string list \<Rightarrow> 'dt Embed" where
  "report_embed cfg now rows_written all_rows_for_gsheet table_rows_for_discord =
     \<lparr>title = ''OANDA Price Report'',
      description =
        (if table_rows_for_discord = [] then Some ''No price data was returned from the API.''
         else None),
      color =
        (if 0 < rows_written \<and> rows_written = length (INSTRUMENTS_LIST cfg) then green
         else orange),
      timestamp = Some now,
      embed_fields =
        (if table_rows_for_discord = [] then []
         else [(''Live Prices'', full_table table_rows_for_discord, False)])
        @ [(''Instruments Fetched'', counter (length all_rows_for_gsheet), True),
           (''Rows Written to GSheet'', counter rows_written, True)],
      footer = Some ''OANDA-GSheets Bot''\<rparr>"

text \<open>The embed of the report in \<open>oanda_gsheets_bot3.py\<close>.\<close>

definition report_embed3 ::
  "'dt \<Rightarrow> nat \<Rightarrow> json list list \<Rightarrow> string list \<Rightarrow> 'dt Embed" where
  "report_embed3 now rows_written all_rows_for_gsheet table_rows_for_discord =
     \<lparr>title = ''OANDA Price Report'',
      description = None,
      color = (if 0 < rows_written then green else orange),
      timestamp = Some now,
      embed_fields =
        (if table_rows_for_discord = [] then []
         else [(''Live Prices'', full_table table_rows_for_discord, False)])
        @ [(''Instruments Fetched'', counter (length all_rows_for_gsheet), True),
           (''Rows Written to GSheet'', counter rows_written, True)],
      footer = None\<rparr>"

text \<open>The embed sent when the request to the provider raised, \<open>text\<close> being its prefix.\<close>

definition failure_embed :: "string \<Rightarrow> string \<Rightarrow> 'dt Embed" where
  "failure_embed text msg =
     \<lparr>title = ''OANDA API Failure'',
      description = Some (text @ [CHR 0x60] @ msg @ [CHR 0x60]),
      color = red,
      timestamp = None,
      embed_fields = [],
      footer = None\<rparr>"

text \<open>\<open>await channel.send(embed=embed)\<close>\<close>

definition send :: "'dt env \<Rightarrow> 'dt Embed \<Rightarrow> ('dt, unit) io" where
  "send world em =
     ([ChannelSend em],
      (case channel_send world em of None \<Rightarrow> Inr () | Some m \<Rightarrow> Inl (LibraryError m)))"

text \<open>
  How a cycle that raised nothing ended, with the values its local variables had: the
  channel was not found, the request failed and the failure embed was sent, or the report
  was built from the two lists and the count of the sink.
\<close>

datatype 'dt cycle =
    NoChannel
  | FetchFailure "'dt Embed"
  | Report "json list list" "string list" nat "'dt Embed"

text \<open>\<open>monitor_and_report\<close> of \<open>oanda_gsheets_bot2.1.py\<close>.\<close>

definition monitor_and_report ::
  "config \<Rightarrow> 'dt datetime_lib \<Rightarrow> 'dt env \<Rightarrow> ('dt, 'dt cycle) io" where
  "monitor_and_report cfg lib world =
     (if get_channel world then
        io_bind
          ([Logging INFO (''Starting data fetch for '' @ str_nat (length (INSTRUMENTS_LIST cfg))
              @ '' instruments.'') None,
            OandaRequest (OANDA_ACCOUNT_ID cfg) (INSTRUMENTS_STR cfg)], Inr ())
          (\<lambda>_. case oanda_request world of
             Inl msg \<Rightarrow>
               io_bind
                 ([Logging ERROR ''OANDA API request failed: '' (Some (LibraryError msg))], Inr ())
                 (\<lambda>_. io_bind (send world (failure_embed ''Could not fetch data. Error: '' msg))
                 (\<lambda>_. ([], Inr (FetchFailure (failure_embed ''Could not fetch data. Error: '' msg)))))
           | Inr response \<Rightarrow>
               io_bind ([], prices_of response)
                 (\<lambda>prices.
                   case price_loop except_parse
                          ''Could not parse price data for an instrument. Error: ''
                          lib prices ([], []) of
                     (tr, st, Some e) \<Rightarrow> (tr, Inl e)
                   | (tr, (all_rows_for_gsheet, table_rows_for_discord), None) \<Rightarrow>
                       io_bind (tr, Inr ())
                         (\<lambda>_. io_bind
                           (if gspread_client world then
                              append_bulk_to_sheet world True (GOOGLE_SHEET_NAME cfg)
                                all_rows_for_gsheet
                            else ([], Inr 0))
                         (\<lambda>rows_written. io_bind
                           (try_except except_Exception
                              (io_bind
                                 (send world
                                    (report_embed cfg (utcnow world) rows_written
                                       all_rows_for_gsheet table_rows_for_discord))
                                 (\<lambda>_. ([Logging INFO ''Cycle complete. Report sent to Discord.''
                                          None], Inr ())))
                              (\<lambda>e. ([Logging ERROR ''Failed to send message to Discord: ''
                                        (Some e)], Inr ())))
                         (\<lambda>_. ([], Inr (Report all_rows_for_gsheet table_rows_for_discord
                                 rows_written
                                 (report_embed cfg (utcnow world) rows_written
                                    all_rows_for_gsheet table_rows_for_discord))))))))
      else ([Logging WARNING ''Cannot find Discord channel. Will retry next cycle.'' None],
            Inr NoChannel))"

text \<open>\<open>monitor_and_report\<close> of \<open>oanda_gsheets_bot3.py\<close>.\<close>

definition monitor_and_report3 ::
  "config \<Rightarrow> 'dt datetime_lib \<Rightarrow> 'dt env \<Rightarrow> ('dt, 'dt cycle) io" where
  "monitor_and_report3 cfg lib world =
     (if get_channel world then
        io_bind ([OandaRequest (OANDA_ACCOUNT_ID cfg) (INSTRUMENTS_STR cfg)], Inr ())
          (\<lambda>_. case oanda_request world of
             Inl msg \<Rightarrow>
               io_bind (send world (failure_embed ''Error: '' msg))
                 (\<lambda>_. ([], Inr (FetchFailure (failure_embed ''Error: '' msg))))
           | Inr response \<Rightarrow>
               io_bind ([], prices_of response)
                 (\<lambda>prices.
                   case price_loop except_Exception ''Could not parse price data. Error: ''
                          lib prices ([], []) of
                     (tr, st, Some e) \<Rightarrow> (tr, Inl e)
                   | (tr, (all_rows_for_gsheet, table_rows_for_discord), None) \<Rightarrow>
                       io_bind (tr, Inr ())
                         (\<lambda>_. io_bind
                           (if gspread_client world then
                              append_bulk_to_sheet3 world True (GOOGLE_SHEET_NAME cfg)
                                all_rows_for_gsheet
                            else ([], Inr 0))
                         (\<lambda>rows_written. io_bind
                           (send world
                              (report_embed3 (utcnow world) rows_written
                                 all_rows_for_gsheet table_rows_for_discord))
                         (\<lambda>_. ([], Inr (Report all_rows_for_gsheet table_rows_for_discord
                                 rows_written
                                 (report_embed3 (utcnow world) rows_written
                                    all_rows_for_gsheet table_rows_for_discord))))))))
      else ([Logging WARNING ''Cannot find Discord channel.'' None], Inr NoChannel))"

section \<open>The vocabulary of the specification\<close>

text \<open>
  What a price record holds, read off its shape: the instrument symbol, the price of the
  first entry of \<open>bids\<close> or \<open>asks\<close> (strings, as the provider sends them), the parsed
  timestamp and the status.
\<close>

fun the_instrument :: "json \<Rightarrow> string option" where
  "the_instrument (JDict kvs) =
     (case map_of kvs ''instrument'' of Some (JStr i) \<Rightarrow> Some i | _ \<Rightarrow> None)"
| "the_instrument _ = None"

fun the_price :: "string \<Rightarrow> json \<Rightarrow> string option" where
  "the_price side (JDict kvs) =
     (case map_of kvs side of
        Some (JList (JDict entry # _)) \<Rightarrow>
          (case map_of entry ''price'' of Some (JStr p) \<Rightarrow> Some p | _ \<Rightarrow> None)
      | _ \<Rightarrow> None)"
| "the_price side _ = None"

fun the_time :: "'dt datetime_lib \<Rightarrow> json \<Rightarrow> 'dt option" where
  "the_time lib (JDict kvs) =
     (case map_of kvs ''time'' of Some (JStr t) \<Rightarrow> fromisoformat lib (replace_Z t) | _ \<Rightarrow> None)"
| "the_time lib _ = None"

fun the_status :: "json \<Rightarrow> json option" where
  "the_status (JDict kvs) = map_of kvs ''status''"
| "the_status _ = None"

text \<open>The DisplayRow of a record that has an instrument, a first bid and a first ask.\<close>

definition display_row_of :: "json \<Rightarrow> string option" where
  "display_row_of price_data =
     (case (the_instrument price_data, the_price ''bids'' price_data,
            the_price ''asks'' price_data) of
        (Some i, Some b, Some a) \<Rightarrow> Some (discord_row (ljust 10 i) (rjust 10 b) (rjust 10 a))
      | _ \<Rightarrow> None)"

text \<open>The SheetRow of a record that has all five.\<close>

definition sheet_row_of :: "'dt datetime_lib \<Rightarrow> json \<Rightarrow> json list option" where
  "sheet_row_of lib price_data =
     (case (the_instrument price_data, the_price ''bids'' price_data,
            the_price ''asks'' price_data, the_time lib price_data, the_status price_data) of
        (Some i, Some b, Some a, Some dt, Some s) \<Rightarrow>
          Some [JStr i, JStr (strftime lib dt), s, JStr b, JStr a]
      | _ \<Rightarrow> None)"

text \<open>The exception a record raises in the body of the \<open>try\<close>, if any.\<close>

definition raised :: "'dt datetime_lib \<Rightarrow> json \<Rightarrow> py_exception option" where
  "raised lib price_data = snd (try_body lib price_data ([], []))"

text \<open>
  A field that is cut to the width as well as filled to it, as the words
  "padded or truncated" describe one.
\<close>

definition padded_or_truncated :: "nat \<Rightarrow> string \<Rightarrow> string" where
  "padded_or_truncated n s = take n (s @ replicate n (CHR '' ''))"

text \<open>The sink is called and its call fails.\<close>

definition sink_fails :: "'dt env \<Rightarrow> string \<Rightarrow> json list list \<Rightarrow> bool" where
  "sink_fails world sheet_name data_rows =
     (sheet_open world sheet_name \<noteq> None \<or> append_rows world data_rows \<noteq> None)"

text \<open>
  The shape of a record of the provider, any part of which may be missing: a dict whose
  \<open>instrument\<close> and \<open>time\<close>, if present, are strings, and whose \<open>bids\<close> and \<open>asks\<close>, if
  present, are lists whose first entry, if present, is a dict whose \<open>price\<close>, if present,
  is a string. The status may be any value.
\<close>

definition string_if_present :: "json option \<Rightarrow> bool" where
  "string_if_present v = (case v of None \<Rightarrow> True | Some (JStr s) \<Rightarrow> True | Some _ \<Rightarrow> False)"

definition prices_if_present :: "json option \<Rightarrow> bool" where
  "prices_if_present v =
     (case v of
        None \<Rightarrow> True
      | Some (JList []) \<Rightarrow> True
      | Some (JList (JDict entry # rest)) \<Rightarrow> string_if_present (map_of entry ''price'')
      | Some _ \<Rightarrow> False)"

definition provider_shaped :: "json \<Rightarrow> bool" where
  "provider_shaped price_data =
     (case price_data of
        JDict kvs \<Rightarrow>
          string_if_present (map_of kvs ''instrument'')
          \<and> prices_if_present (map_of kvs ''bids'')
          \<and> prices_if_present (map_of kvs ''asks'')
          \<and> string_if_present (map_of kvs ''time'')
      | _ \<Rightarrow> False)"

section \<open>Sample inputs\<close>

text \<open>
  An instance of the two library functions for the evaluations below: it accepts a
  timestamp of the shape \<open>YYYY-MM-DDTHH:MM:SS+00:00\<close>, keeps it as the parsed value and
  formats it by its date and its time of day.
\<close>

definition sample_lib :: "string datetime_lib" where
  "sample_lib =
     \<lparr>fromisoformat =
        (\<lambda>s. if length s = 25 \<and> take 1 (drop 10 s) = ''T'' \<and> drop 19 s = ''+00:00''
             then Some s else None),
      strftime = (\<lambda>d. take 10 d @ '' '' @ take 8 (drop 11 d))\<rparr>"

definition sample_quote :: "string \<Rightarrow> string \<Rightarrow> json" where
  "sample_quote instrument time =
     JDict [(''instrument'', JStr instrument),
            (''bids'', JList [JDict [(''price'', JStr ''1.0712'')]]),
            (''asks'', JList [JDict [(''price'', JStr ''1.0714'')]]),
            (''status'', JStr ''tradeable''),
            (''time'', JStr time)]"

text \<open>A record without \<open>bids\<close>.\<close>

definition quote_without_bids :: json where
  "quote_without_bids =
     JDict [(''instrument'', JStr ''GBP_USD''),
            (''asks'', JList [JDict [(''price'', JStr ''1.2511'')]]),
            (''status'', JStr ''tradeable''),
            (''time'', JStr ''2024-05-06T07:08:09Z'')]"

text \<open>A record whose list of \<open>asks\<close> is empty.\<close>

definition quote_with_empty_asks :: json where
  "quote_with_empty_asks =
     JDict [(''instrument'', JStr ''AUD_USD''),
            (''bids'', JList [JDict [(''price'', JStr ''0.6601'')]]),
            (''asks'', JList []),
            (''status'', JStr ''tradeable''),
            (''time'', JStr ''2024-05-06T07:08:09Z'')]"

text \<open>A record whose \<open>bids\<close> is \<open>null\<close>, which is not of the provider's shape.\<close>

definition quote_with_null_bids :: json where
  "quote_with_null_bids =
     JDict [(''instrument'', JStr ''NZD_USD''),
            (''bids'', JNull),
            (''asks'', JList [JDict [(''price'', JStr ''0.6012'')]]),
            (''status'', JStr ''tradeable''),
            (''time'', JStr ''2024-05-06T07:08:09Z'')]"

text \<open>
  A world in which the channel and the spreadsheet client exist and the sheet opens; the
  answer of the provider and the failures of the append and of the send are given.
\<close>

definition sample_world :: "string + json \<Rightarrow> string option \<Rightarrow> string option \<Rightarrow> string env" where
  "sample_world answer append_failure send_failure =
     \<lparr>get_channel = True,
      oanda_request = answer,
      gspread_client = True,
      sheet_open = (\<lambda>_. None),
      append_rows = (\<lambda>_. append_failure),
      channel_send = (\<lambda>_. send_failure),
      utcnow = ''2024-05-06T07:08:10+00:00''\<rparr>"

definition sample_config :: "string \<Rightarrow> config" where
  "sample_config instruments =
     \<lparr>OANDA_ACCOUNT_ID = ''101-001'', GOOGLE_SHEET_NAME = ''prices'',
      INSTRUMENTS_STR = instruments\<rparr>"

text \<open>The rows and the warning of the sample records.\<close>

definition sample_sheet_row :: "string \<Rightarrow> string \<Rightarrow> json list" where
  "sample_sheet_row instrument time =
     [JStr instrument, JStr time, JStr ''tradeable'', JStr ''1.0712'', JStr ''1.0714'']"

definition sample_response :: "json list \<Rightarrow> string + json" where
  "sample_response prices = Inr (JDict [(''prices'', JList prices)])"

text \<open>What is read off the end of a cycle: the counts of its lists and its embed.\<close>

fun cycle_quotes_parsed :: "'dt cycle \<Rightarrow> nat option" where
  "cycle_quotes_parsed (Report all_rows_for_gsheet table_rows_for_discord rows_written em) =
     Some (length all_rows_for_gsheet)"
| "cycle_quotes_parsed _ = None"

fun cycle_rows_written :: "'dt cycle \<Rightarrow> nat option" where
  "cycle_rows_written (Report all_rows_for_gsheet table_rows_for_discord rows_written em) =
     Some rows_written"
| "cycle_rows_written _ = None"

fun cycle_embed :: "'dt cycle \<Rightarrow> 'dt Embed option" where
  "cycle_embed (Report all_rows_for_gsheet table_rows_for_discord rows_written em) = Some em"
| "cycle_embed (FetchFailure em) = Some em"
| "cycle_embed NoChannel = None"

text \<open>The value a cycle ends with, read by one of the above; \<open>None\<close> when it raised.\<close>

definition at_end :: "('dt cycle \<Rightarrow> 'a option) \<Rightarrow> ('dt, 'dt cycle) io \<Rightarrow> 'a option" where
  "at_end f run = (case snd run of Inl e \<Rightarrow> None | Inr c \<Rightarrow> f c)"

section \<open>Facts about the parts of the cycle\<close>


text \<open>
  \<open>split\<close> never returns the empty list, so the head and the tail in its definition are
  those of a list that has them; the instruments requested are one more than the commas
  of \<open>INSTRUMENTS_STR\<close>.
\<close>

lemma split_not_Nil: "split sep s \<noteq> []"
  by (induction s) auto

lemma length_split: "length (split sep s) = Suc (length (filter (\<lambda>c. c = sep) s))"
proof (induction s)
  case Nil
  then show ?case by simp
next
  case (Cons c cs)
  then show ?case
    using split_not_Nil [of sep cs] by (cases "split sep cs") auto
qed

lemma length_INSTRUMENTS_LIST:
  "length (INSTRUMENTS_LIST cfg) = Suc (length (filter (\<lambda>c. c = CHR '','') (INSTRUMENTS_STR cfg)))"
  by (simp add: INSTRUMENTS_LIST_def length_split)

lemma first_price_Inr_iff:
  "first_price pd side = Inr v \<longleftrightarrow>
     (\<exists>kvs entry rest. pd = JDict kvs \<and> map_of kvs side = Some (JList (JDict entry # rest))
        \<and> map_of entry ''price'' = Some v)"
proof (cases pd)
  case (JDict kvs)
  show ?thesis
  proof (cases "map_of kvs side")
    case None
    with JDict show ?thesis by (simp add: first_price_def bind_def)
  next
    case (Some xs)
    show ?thesis
    proof (cases "getitem_0 xs")
      case (Inl e)
      with JDict Some show ?thesis
        by (auto simp: first_price_def bind_def elim: getitem_0.elims)
    next
      case (Inr x)
      with JDict Some show ?thesis
        by (cases x; cases xs rule: getitem_0.cases)
           (auto simp: first_price_def bind_def split: option.splits)
    qed
  qed
qed (simp_all add: first_price_def bind_def)

lemma first_price_str: "first_price pd side = Inr (JStr p) \<longleftrightarrow> the_price side pd = Some p"
  unfolding first_price_Inr_iff
  by (cases pd) (auto split: option.splits json.splits list.splits)

lemma getitem_instrument_str:
  "getitem_str pd ''instrument'' = Inr (JStr i) \<longleftrightarrow> the_instrument pd = Some i"
  by (cases pd) (auto split: option.splits json.splits)

lemma str_method_Inr_iff: "str_method m v = Inr r \<longleftrightarrow> (\<exists>s. v = JStr s \<and> r = m s)"
  by (cases v) auto

lemma display_part_Inr_iff:
  "display_part pd = Inr (x, y, z, row) \<longleftrightarrow>
     (\<exists>i b a. the_instrument pd = Some i \<and> the_price ''bids'' pd = Some b
        \<and> the_price ''asks'' pd = Some a \<and> x = JStr i \<and> y = JStr b \<and> z = JStr a
        \<and> row = discord_row (ljust 10 i) (rjust 10 b) (rjust 10 a))"
  unfolding first_price_str [symmetric] getitem_instrument_str [symmetric]
  by (auto simp: display_part_def bind_def str_method_Inr_iff split: sum.splits)

lemma sheet_part_Inr_iff:
  "sheet_part lib pd x y z = Inr g \<longleftrightarrow>
     (\<exists>dt s. the_time lib pd = Some dt \<and> the_status pd = Some s
        \<and> g = [x, JStr (strftime lib dt), s, y, z])"
  by (cases pd)
     (auto simp: sheet_part_def bind_def str_method_Inr_iff split: sum.splits option.splits json.splits)


lemma display_row_of_Some_iff:
  "display_row_of pd = Some row \<longleftrightarrow> (\<exists>x y z. display_part pd = Inr (x, y, z, row))"
  unfolding display_part_Inr_iff
  by (auto simp: display_row_of_def split: option.splits)

lemma display_part_Inl:
  "display_part pd = Inl e \<Longrightarrow> display_row_of pd = None \<and> sheet_row_of lib pd = None"
proof -
  assume a: "display_part pd = Inl e"
  have "display_row_of pd = None"
  proof (cases "display_row_of pd")
    case (Some row)
    then show ?thesis using a by (auto simp: display_row_of_Some_iff)
  qed simp
  then show ?thesis
    by (auto simp: display_row_of_def sheet_row_of_def split: option.splits)
qed

lemma try_body_rows:
  "try_body lib pd (rows, table) =
     ((rows @ (case sheet_row_of lib pd of None \<Rightarrow> [] | Some g \<Rightarrow> [g]),
       table @ (case display_row_of pd of None \<Rightarrow> [] | Some d \<Rightarrow> [d])),
      raised lib pd)"
proof (cases "display_part pd")
  case (Inl e)
  then show ?thesis
    using display_part_Inl [OF Inl, of lib] by (simp add: try_body_def raised_def)
next
  case (Inr q)
  obtain x y z row where q: "q = (x, y, z, row)" by (cases q) auto
  from Inr q obtain i b a where v: "the_instrument pd = Some i" "the_price ''bids'' pd = Some b"
    "the_price ''asks'' pd = Some a" "x = JStr i" "y = JStr b" "z = JStr a"
    "row = discord_row (ljust 10 i) (rjust 10 b) (rjust 10 a)"
    by (auto simp: display_part_Inr_iff)
  have d: "display_row_of pd = Some row"
    using v by (simp add: display_row_of_def)
  show ?thesis
  proof (cases "sheet_part lib pd x y z")
    case (Inl e)
    have "sheet_row_of lib pd = None"
    proof (cases "sheet_row_of lib pd")
      case (Some g)
      then have "sheet_part lib pd x y z = Inr g"
        using v by (auto simp: sheet_part_Inr_iff sheet_row_of_def split: option.splits)
      with Inl show ?thesis by simp
    qed simp
    with Inl Inr q d show ?thesis by (simp add: try_body_def raised_def)
  next
    case (Inr g)
    then have "sheet_row_of lib pd = Some g"
      using v by (auto simp: sheet_part_Inr_iff sheet_row_of_def)
    with Inr \<open>display_part pd = Inr q\<close> q d show ?thesis
      by (simp add: try_body_def raised_def)
  qed
qed

lemma price_loop_rows:
  assumes "\<forall>pd\<in>set prices. case raised lib pd of None \<Rightarrow> True | Some e \<Rightarrow> caught e"
  shows "price_loop caught text lib prices (rows, table) =
     (map (\<lambda>e. Logging WARNING text (Some e)) (List.map_filter (raised lib) prices),
      (rows @ List.map_filter (sheet_row_of lib) prices,
       table @ List.map_filter display_row_of prices),
      None)"
  using assms
proof (induction prices arbitrary: rows table)
  case Nil
  then show ?case by (simp add: List.map_filter_simps)
next
  case (Cons pd prices)
  then show ?case
    by (cases "raised lib pd")
       (auto simp: try_body_rows List.map_filter_simps split: option.splits)
qed

lemma price_loop_lengths:
  "price_loop caught text lib prices (rows, table) = (tr, (rows', table'), r)
     \<Longrightarrow> length rows' - length rows \<le> length table' - length table
       \<and> length rows \<le> length rows' \<and> length table \<le> length table'
       \<and> length rows' \<le> length rows + length prices"
proof (induction prices arbitrary: rows table tr)
  case Nil
  then show ?case by simp
next
  case (Cons pd prices)
  let ?rows = "rows @ (case sheet_row_of lib pd of None \<Rightarrow> [] | Some g \<Rightarrow> [g])"
  let ?table = "table @ (case display_row_of pd of None \<Rightarrow> [] | Some d \<Rightarrow> [d])"
  have s: "length ?rows - length rows \<le> length ?table - length table"
    by (auto simp: sheet_row_of_def display_row_of_def split: option.splits)
  have l: "length ?rows \<le> Suc (length rows)" "length rows \<le> length ?rows"
     "length table \<le> length ?table"
    by (auto split: option.splits)
  show ?case
  proof (cases "raised lib pd")
    case None
    with Cons.prems have "price_loop caught text lib prices (?rows, ?table) = (tr, (rows', table'), r)"
      by (simp add: try_body_rows)
    from Cons.IH [OF this] s l show ?thesis by simp arith
  next
    case (Some e)
    show ?thesis
    proof (cases "caught e")
      case True
      with Some Cons.prems obtain tr' where
        "price_loop caught text lib prices (?rows, ?table) = (tr', (rows', table'), r)"
        by (auto simp: try_body_rows split: prod.splits)
      from Cons.IH [OF this] s l show ?thesis by simp arith
    next
      case False
      with Some Cons.prems have "rows' = ?rows" "table' = ?table"
        by (auto simp: try_body_rows)
      with s l show ?thesis by simp
    qed
  qed
qed


lemma append_bulk_to_sheet_count:
  "\<exists>tr w. append_bulk_to_sheet world client name data_rows = (tr, Inr w)
      \<and> (w = 0 \<or> w = length data_rows)
      \<and> (data_rows = [] \<or> \<not> client \<or> sink_fails world name data_rows \<longrightarrow> w = 0)"
  by (auto simp: append_bulk_to_sheet_def append_body_def try_except_def except_Exception_def
      sink_fails_def split: option.splits)

lemma append_bulk_to_sheet3_count:
  "\<exists>tr w. append_bulk_to_sheet3 world client name data_rows = (tr, Inr w)
      \<and> (w = 0 \<or> w = length data_rows)
      \<and> (data_rows = [] \<or> \<not> client \<or> sink_fails world name data_rows \<longrightarrow> w = 0)"
  by (auto simp: append_bulk_to_sheet3_def append_body_def try_except_def except_Exception_def
      sink_fails_def split: option.splits)

lemma monitor_and_report_Report:
  assumes "monitor_and_report cfg lib world = (tr, Inr (Report rows table w em))"
  shows "\<exists>response prices tr0.
      oanda_request world = Inr response \<and> prices_of response = Inr prices
    \<and> price_loop except_parse ''Could not parse price data for an instrument. Error: ''
         lib prices ([], []) = (tr0, (rows, table), None)
    \<and> (if gspread_client world
        then snd (append_bulk_to_sheet world True (GOOGLE_SHEET_NAME cfg) rows) = Inr w
        else w = 0)
    \<and> em = report_embed cfg (utcnow world) w rows table"
  using assms
  by (auto simp: monitor_and_report_def io_bind_def try_except_def send_def
      split: if_splits sum.splits prod.splits option.splits)

lemma monitor_and_report3_Report:
  assumes "monitor_and_report3 cfg lib world = (tr, Inr (Report rows table w em))"
  shows "\<exists>response prices tr0.
      oanda_request world = Inr response \<and> prices_of response = Inr prices
    \<and> price_loop except_Exception ''Could not parse price data. Error: ''
         lib prices ([], []) = (tr0, (rows, table), None)
    \<and> (if gspread_client world
        then snd (append_bulk_to_sheet3 world True (GOOGLE_SHEET_NAME cfg) rows) = Inr w
        else w = 0)
    \<and> em = report_embed3 (utcnow world) w rows table"
  using assms
  by (auto simp: monitor_and_report3_def io_bind_def try_except_def send_def
      split: if_splits sum.splits prod.splits option.splits)


lemma raised_None_iff: "raised lib pd = None \<longleftrightarrow> sheet_row_of lib pd \<noteq> None"
proof (cases "display_part pd")
  case (Inl e)
  then show ?thesis
    using display_part_Inl [OF Inl, of lib] by (simp add: raised_def try_body_def)
next
  case (Inr q)
  obtain x y z row where q: "q = (x, y, z, row)" by (cases q) auto
  from Inr q obtain i b a where v: "the_instrument pd = Some i" "the_price ''bids'' pd = Some b"
    "the_price ''asks'' pd = Some a" "x = JStr i" "y = JStr b" "z = JStr a"
    by (auto simp: display_part_Inr_iff)
  show ?thesis
  proof (cases "sheet_part lib pd x y z")
    case (Inl e)
    have "sheet_row_of lib pd = None"
    proof (cases "sheet_row_of lib pd")
      case (Some g)
      then have "sheet_part lib pd x y z = Inr g"
        using v by (auto simp: sheet_part_Inr_iff sheet_row_of_def split: option.splits)
      with Inl show ?thesis by simp
    qed simp
    with Inl Inr q show ?thesis by (simp add: raised_def try_body_def)
  next
    case r: (Inr g)
    then have "sheet_row_of lib pd = Some g"
      using v by (auto simp: sheet_part_Inr_iff sheet_row_of_def)
    with r Inr q show ?thesis by (simp add: raised_def try_body_def)
  qed
qed

lemma length_ljust: "length (ljust n s) = max n (length s)"
  by (simp add: ljust_def)

lemma length_rjust: "length (rjust n s) = max n (length s)"
  by (simp add: rjust_def)

text \<open>
  A record of the provider's shape raises nothing, or one of the three exceptions that
  version 2.1 catches.
\<close>

lemma first_price_shaped:
  assumes "prices_if_present (map_of kvs side)"
  shows "first_price (JDict kvs) side = Inl KeyError
       \<or> first_price (JDict kvs) side = Inl IndexError
       \<or> (\<exists>p. first_price (JDict kvs) side = Inr (JStr p))"
  using assms
  by (auto simp: prices_if_present_def string_if_present_def first_price_def bind_def
      split: option.splits json.splits list.splits)

lemma provider_shaped_raised:
  assumes "provider_shaped pd"
  shows "case raised lib pd of None \<Rightarrow> True | Some e \<Rightarrow> except_parse e"
proof -
  from assms obtain kvs where pd: "pd = JDict kvs"
    by (cases pd) (auto simp: provider_shaped_def)
  from assms pd have i: "string_if_present (map_of kvs ''instrument'')"
    and b: "prices_if_present (map_of kvs ''bids'')"
    and a: "prices_if_present (map_of kvs ''asks'')"
    and t: "string_if_present (map_of kvs ''time'')"
    by (simp_all add: provider_shaped_def)
  have d: "display_part pd = Inl KeyError \<or> display_part pd = Inl IndexError
      \<or> (\<exists>i b a row. display_part pd = Inr (JStr i, JStr b, JStr a, row))"
    using i first_price_shaped [OF b] first_price_shaped [OF a] unfolding pd
    by (auto simp: display_part_def bind_def string_if_present_def
        split: option.splits json.splits)
  have s: "sheet_part lib pd x y z = Inl KeyError \<or> sheet_part lib pd x y z = Inl ValueError
      \<or> (\<exists>g. sheet_part lib pd x y z = Inr g)" for x y z
    using t unfolding pd
    by (auto simp: sheet_part_def bind_def string_if_present_def
        split: option.splits json.splits)
  from d show ?thesis
  proof (elim disjE exE)
    fix i b a row
    assume "display_part pd = Inr (JStr i, JStr b, JStr a, row)"
    with s [of "JStr i" "JStr b" "JStr a"] show ?thesis
      by (auto simp: raised_def try_body_def except_parse_def)
  qed (simp_all add: raised_def try_body_def except_parse_def)
qed

text \<open>
  A record that is not of that shape can end the loop of version 2.1: with \<open>bids\<close>
  \<open>null\<close> the subscript raises \<open>TypeError\<close>, which version 2.1 does not catch, so the
  record after it is not read and the cycle raises; version 3 logs it and goes on.
\<close>

lemma wrong_type_aborts_the_loop:
  "provider_shaped quote_with_null_bids = False
   \<and> price_loop except_parse ''Could not parse price data for an instrument. Error: '' sample_lib
       [sample_quote ''EUR_USD'' ''2024-05-06T07:08:09Z'', quote_with_null_bids,
        sample_quote ''USD_CAD'' ''2024-05-06T07:08:09Z''] ([], []) =
     ([], ([sample_sheet_row ''EUR_USD'' ''2024-05-06 07:08:09''],
           [''EUR_USD   |     1.0712 |     1.0714'']), Some TypeError)
   \<and> snd (monitor_and_report (sample_config ''EUR_USD,NZD_USD,USD_CAD'') sample_lib
       (sample_world (sample_response [sample_quote ''EUR_USD'' ''2024-05-06T07:08:09Z'',
          quote_with_null_bids, sample_quote ''USD_CAD'' ''2024-05-06T07:08:09Z'']) None None))
       = Inl TypeError
   \<and> at_end cycle_quotes_parsed
       (monitor_and_report3 (sample_config ''EUR_USD,NZD_USD,USD_CAD'') sample_lib
       (sample_world (sample_response [sample_quote ''EUR_USD'' ''2024-05-06T07:08:09Z'',
          quote_with_null_bids, sample_quote ''USD_CAD'' ''2024-05-06T07:08:09Z'']) None None))
       = Some 2"
proof -
  let ?prices = "[sample_quote ''EUR_USD'' ''2024-05-06T07:08:09Z'', quote_with_null_bids,
        sample_quote ''USD_CAD'' ''2024-05-06T07:08:09Z'']"
  have s: "provider_shaped quote_with_null_bids = False"
    by code_simp
  have loop: "price_loop except_parse ''Could not parse price data for an instrument. Error: ''
      sample_lib ?prices ([], []) =
     ([], ([sample_sheet_row ''EUR_USD'' ''2024-05-06 07:08:09''],
           [''EUR_USD   |     1.0712 |     1.0714'']), Some TypeError)"
    by code_simp
  have p: "prices_of (JDict [(''prices'', JList ?prices)]) = Inr ?prices"
    by (simp add: prices_of_def bind_def)
  have w: "get_channel (sample_world (sample_response ?prices) None None)"
    "oanda_request (sample_world (sample_response ?prices) None None) =
       Inr (JDict [(''prices'', JList ?prices)])"
    by (simp_all add: sample_world_def sample_response_def)
  have c: "snd (monitor_and_report (sample_config ''EUR_USD,NZD_USD,USD_CAD'') sample_lib
       (sample_world (sample_response ?prices) None None)) = Inl TypeError"
    unfolding monitor_and_report_def
    by (simp only: w p loop io_bind_def if_True sum.case prod.case option.case snd_conv
        append_Nil append_Nil2)
  have t: "at_end cycle_quotes_parsed
       (monitor_and_report3 (sample_config ''EUR_USD,NZD_USD,USD_CAD'') sample_lib
       (sample_world (sample_response ?prices) None None)) = Some 2"
    by code_simp
  from s loop c t show ?thesis
    by blast
qed

text \<open>
  The whole of a cycle whose request to the provider raises: the request, the failure
  embed, and the end, which is normal when the send succeeds and the exception of the
  send when it does not.
\<close>

lemma fetch_failure_trace:
  assumes "get_channel world" and "oanda_request world = Inl msg"
  shows "monitor_and_report cfg lib world =
      ([Logging INFO (''Starting data fetch for '' @ str_nat (length (INSTRUMENTS_LIST cfg))
          @ '' instruments.'') None,
        OandaRequest (OANDA_ACCOUNT_ID cfg) (INSTRUMENTS_STR cfg),
        Logging ERROR ''OANDA API request failed: '' (Some (LibraryError msg)),
        ChannelSend
          \<lparr>title = ''OANDA API Failure'',
           description = Some (''Could not fetch data. Error: '' @ [CHR 0x60] @ msg @ [CHR 0x60]),
           color = red, timestamp = None, embed_fields = [], footer = None\<rparr>],
       (case channel_send world
               \<lparr>title = ''OANDA API Failure'',
                description = Some (''Could not fetch data. Error: '' @ [CHR 0x60] @ msg
                  @ [CHR 0x60]),
                color = red, timestamp = None, embed_fields = [], footer = None\<rparr> of
          None \<Rightarrow> Inr (FetchFailure
               \<lparr>title = ''OANDA API Failure'',
                description = Some (''Could not fetch data. Error: '' @ [CHR 0x60] @ msg
                  @ [CHR 0x60]),
                color = red, timestamp = None, embed_fields = [], footer = None\<rparr>)
        | Some m \<Rightarrow> Inl (LibraryError m)))
    \<and> monitor_and_report3 cfg lib world =
      ([OandaRequest (OANDA_ACCOUNT_ID cfg) (INSTRUMENTS_STR cfg),
        ChannelSend
          \<lparr>title = ''OANDA API Failure'',
           description = Some (''Error: '' @ [CHR 0x60] @ msg @ [CHR 0x60]),
           color = red, timestamp = None, embed_fields = [], footer = None\<rparr>],
       (case channel_send world
               \<lparr>title = ''OANDA API Failure'',
                description = Some (''Error: '' @ [CHR 0x60] @ msg @ [CHR 0x60]),
                color = red, timestamp = None, embed_fields = [], footer = None\<rparr> of
          None \<Rightarrow> Inr (FetchFailure
               \<lparr>title = ''OANDA API Failure'',
                description = Some (''Error: '' @ [CHR 0x60] @ msg @ [CHR 0x60]),
                color = red, timestamp = None, embed_fields = [], footer = None\<rparr>)
        | Some m \<Rightarrow> Inl (LibraryError m)))"
  using assms
  by (simp add: monitor_and_report_def monitor_and_report3_def io_bind_def send_def
      failure_embed_def split: option.splits)

text \<open>
  What version 2.1 does at the end of a cycle: the colour of its embeds, the body of its
  report, and the log record that a failed send of the report leaves.
\<close>

lemma monitor_and_report_color:
  assumes "monitor_and_report cfg lib world = (tr, Inr c)"
  shows "case c of
      NoChannel \<Rightarrow> \<not> get_channel world
    | FetchFailure em \<Rightarrow> (\<exists>msg. oanda_request world = Inl msg) \<and> color em = red
    | Report rows table w em \<Rightarrow>
        (\<exists>response. oanda_request world = Inr response)
        \<and> color em = (if 0 < w \<and> w = length (INSTRUMENTS_LIST cfg) then green else orange)"
  using assms
  by (auto simp: monitor_and_report_def io_bind_def try_except_def send_def report_embed_def
      failure_embed_def
      split: if_splits sum.splits prod.splits option.splits cycle.splits)

lemma monitor_and_report_body:
  assumes "monitor_and_report cfg lib world = (tr, Inr (Report rows table w em))"
  shows "(table \<noteq> [] \<longrightarrow> description em = None
            \<and> hd (embed_fields em) = (''Live Prices'',
                 fence @ newline @ header @ newline @ separator @ newline
                   @ join newline table @ newline @ fence, False))
       \<and> (table = [] \<longrightarrow> description em = Some ''No price data was returned from the API.''
            \<and> length (embed_fields em) = 2)"
  using monitor_and_report_Report [OF assms]
  by (auto simp: report_embed_def full_table_def)

lemma report_send_failure_logged:
  assumes "monitor_and_report cfg lib world = (tr, Inr (Report rows table w em))"
    and "channel_send world em = Some m"
  shows "last tr = Logging ERROR ''Failed to send message to Discord: '' (Some (LibraryError m))"
  using assms
  by (auto simp: monitor_and_report_def io_bind_def try_except_def send_def except_Exception_def
      split: if_splits sum.splits prod.splits option.splits)

section \<open>Claims about the spreadsheet sink\<close>

text \<open>
  C4. In both versions \<open>append_bulk_to_sheet\<close> returns 0 on an empty list of rows and
  causes no event at all; when the client exists, the sheet opens and the single
  \<open>append_rows\<close> call succeeds, it has passed the whole list, in order, in that one call
  and returns the length of the list; when the client is missing, the sheet does not
  open or the append fails, it returns 0; and whatever the outside does, it returns a
  count and raises nothing.
\<close>

theorem sink_contract:
  "append_bulk_to_sheet world client name [] = ([], Inr 0)
   \<and> append_bulk_to_sheet3 world client name [] = ([], Inr 0)
   \<and> (data_rows \<noteq> [] \<and> client \<and> sheet_open world name = None
          \<and> append_rows world data_rows = None
        \<longrightarrow> append_bulk_to_sheet world client name data_rows =
              ([SheetOpen name, AppendRows data_rows,
                Logging INFO (''Successfully appended '' @ str_nat (length data_rows)
                  @ '' rows to Google Sheet.'') None],
               Inr (length data_rows))
          \<and> append_bulk_to_sheet3 world client name data_rows =
              ([SheetOpen name, AppendRows data_rows], Inr (length data_rows)))
   \<and> (\<not> client \<or> sheet_open world name \<noteq> None \<or> append_rows world data_rows \<noteq> None
        \<longrightarrow> snd (append_bulk_to_sheet world client name data_rows) = Inr 0
          \<and> snd (append_bulk_to_sheet3 world client name data_rows) = Inr 0)
   \<and> (\<exists>n. snd (append_bulk_to_sheet world client name data_rows) = Inr n)
   \<and> (\<exists>n. snd (append_bulk_to_sheet3 world client name data_rows) = Inr n)"
  by (auto simp: append_bulk_to_sheet_def append_bulk_to_sheet3_def append_body_def
      try_except_def except_Exception_def split: option.splits)

theorem sink_contract_witness:
  "append_bulk_to_sheet (sample_world (Inl ''down'') None None) True ''prices''
       [[JStr ''EUR_USD'']] =
     ([SheetOpen ''prices'', AppendRows [[JStr ''EUR_USD'']],
       Logging INFO ''Successfully appended 1 rows to Google Sheet.'' None], Inr 1)
   \<and> append_bulk_to_sheet3 (sample_world (Inl ''down'') None None) True ''prices''
       [[JStr ''EUR_USD'']] =
     ([SheetOpen ''prices'', AppendRows [[JStr ''EUR_USD'']]], Inr 1)
   \<and> snd (append_bulk_to_sheet (sample_world (Inl ''down'') (Some ''quota'') None) True
       ''prices'' [[JStr ''EUR_USD'']]) = Inr 0
   \<and> snd (append_bulk_to_sheet3 (sample_world (Inl ''down'') (Some ''quota'') None) True
       ''prices'' [[JStr ''EUR_USD'']]) = Inr 0"
proof -
  have n: "str_nat (Suc 0) = ''1''"
    by code_simp
  show ?thesis
    using sink_contract [of "sample_world (Inl ''down'') None None" True "''prices''"
        "[[JStr ''EUR_USD'']]"]
      sink_contract [of "sample_world (Inl ''down'') (Some ''quota'') None" True "''prices''"
        "[[JStr ''EUR_USD'']]"]
    by (simp add: sample_world_def n)
qed

section \<open>Claims about the row transformer\<close>

text \<open>
  C2. A record that holds an instrument symbol, a price in the first entry of \<open>bids\<close>
  and of \<open>asks\<close> (strings), a status and a timestamp that parses adds exactly one
  SheetRow and exactly one DisplayRow to the lists of the cycle and raises nothing; the
  SheetRow is the instrument, the formatted time, the status, the bid and the ask, in
  that order. The body of the \<open>try\<close> is the same in both versions.
\<close>

theorem valid_record_rows:
  assumes "map_of kvs ''instrument'' = Some (JStr i)"
    and "map_of kvs ''bids'' = Some (JList (JDict bid # bids))"
    and "map_of bid ''price'' = Some (JStr b)"
    and "map_of kvs ''asks'' = Some (JList (JDict ask # asks))"
    and "map_of ask ''price'' = Some (JStr a)"
    and "map_of kvs ''status'' = Some s"
    and "map_of kvs ''time'' = Some (JStr t)"
    and "fromisoformat lib (replace_Z t) = Some dt"
  shows "try_body lib (JDict kvs) (all_rows_for_gsheet, table_rows_for_discord) =
      ((all_rows_for_gsheet @ [[JStr i, JStr (strftime lib dt), s, JStr b, JStr a]],
        table_rows_for_discord @ [ljust 10 i @ ''| '' @ rjust 10 b @ '' | '' @ rjust 10 a]),
       None)"
  using assms
  by (simp add: try_body_def display_part_def first_price_def sheet_part_def bind_def
      discord_row_def)

theorem valid_record_rows_witness:
  "try_body sample_lib (sample_quote ''EUR_USD'' ''2024-05-06T07:08:09Z'') ([], []) =
     (([[JStr ''EUR_USD'', JStr ''2024-05-06 07:08:09'', JStr ''tradeable'',
         JStr ''1.0712'', JStr ''1.0714'']],
       [''EUR_USD   |     1.0712 |     1.0714'']), None)"
proof -
  have t: "fromisoformat sample_lib (replace_Z ''2024-05-06T07:08:09Z'')
      = Some ''2024-05-06T07:08:09+00:00''"
    by code_simp
  have f: "strftime sample_lib ''2024-05-06T07:08:09+00:00'' = ''2024-05-06 07:08:09''"
    by code_simp
  have r: "ljust 10 ''EUR_USD'' @ ''| '' @ rjust 10 ''1.0712'' @ '' | '' @ rjust 10 ''1.0714''
      = ''EUR_USD   |     1.0712 |     1.0714''"
    by code_simp
  have "try_body sample_lib (sample_quote ''EUR_USD'' ''2024-05-06T07:08:09Z'') ([], []) =
      (([] @ [[JStr ''EUR_USD'', JStr (strftime sample_lib ''2024-05-06T07:08:09+00:00''),
               JStr ''tradeable'', JStr ''1.0712'', JStr ''1.0714'']],
        [] @ [ljust 10 ''EUR_USD'' @ ''| '' @ rjust 10 ''1.0712'' @ '' | ''
               @ rjust 10 ''1.0714'']), None)"
    unfolding sample_quote_def
    by (rule valid_record_rows [where t = "''2024-05-06T07:08:09Z''" and bids = "[]"
          and asks = "[]" and bid = "[(''price'', JStr ''1.0712'')]"
          and ask = "[(''price'', JStr ''1.0714'')]"])
      (simp_all add: t)
  then show ?thesis
    by (simp only: f r append_Nil)
qed

section \<open>Display rows and sheet rows\<close>

text \<open>
  C10. At every point of the loop over the price records, and so at the end of every
  cycle of either version, there are at least as many DisplayRows as SheetRows. The
  DisplayRow is appended before the timestamp is read: a record whose instrument, first
  bid price and first ask price are strings, but whose \<open>time\<close> is missing or does not
  parse, or whose \<open>status\<close> is missing, adds its DisplayRow and no SheetRow, and the
  exception it raises is one that both versions catch.
\<close>
theorem display_rows_at_least_sheet_rows:
  "(price_loop caught text lib prices ([], []) = (tr, (rows, table), r)
      \<longrightarrow> length rows \<le> length table)
   \<and> (monitor_and_report cfg lib world = (tr', Inr (Report rows' table' w em))
        \<or> monitor_and_report3 cfg lib world = (tr', Inr (Report rows' table' w em))
      \<longrightarrow> length rows' \<le> length table')
   \<and> (map_of kvs ''instrument'' = Some (JStr i)
        \<and> map_of kvs ''bids'' = Some (JList (JDict bid # bids))
        \<and> map_of bid ''price'' = Some (JStr b)
        \<and> map_of kvs ''asks'' = Some (JList (JDict ask # asks))
        \<and> map_of ask ''price'' = Some (JStr a)
        \<and> (map_of kvs ''time'' = None
           \<or> (\<exists>t. map_of kvs ''time'' = Some (JStr t) \<and> fromisoformat lib (replace_Z t) = None)
           \<or> (\<exists>t dt. map_of kvs ''time'' = Some (JStr t)
                 \<and> fromisoformat lib (replace_Z t) = Some dt \<and> map_of kvs ''status'' = None))
      \<longrightarrow> (\<exists>e. except_parse e
             \<and> try_body lib (JDict kvs) (all_rows_for_gsheet, table_rows_for_discord) =
                 ((all_rows_for_gsheet, table_rows_for_discord @ [ljust 10 i @ ''| '' @ rjust 10 b @ '' | '' @ rjust 10 a]),
                  Some e)))"
proof (intro conjI impI)
  assume "price_loop caught text lib prices ([], []) = (tr, (rows, table), r)"
  from price_loop_lengths [OF this] show "length rows \<le> length table"
    by simp
next
  assume "monitor_and_report cfg lib world = (tr', Inr (Report rows' table' w em))
        \<or> monitor_and_report3 cfg lib world = (tr', Inr (Report rows' table' w em))"
  then obtain c w0 ps tr0 where
    "price_loop c w0 lib ps ([], []) = (tr0, (rows', table'), None)"
    using monitor_and_report_Report [of cfg lib world tr' rows' table' w em]
      monitor_and_report3_Report [of cfg lib world tr' rows' table' w em]
    by blast
  from price_loop_lengths [OF this] show "length rows' \<le> length table'"
    by simp
next
  assume "map_of kvs ''instrument'' = Some (JStr i)
        \<and> map_of kvs ''bids'' = Some (JList (JDict bid # bids))
        \<and> map_of bid ''price'' = Some (JStr b)
        \<and> map_of kvs ''asks'' = Some (JList (JDict ask # asks))
        \<and> map_of ask ''price'' = Some (JStr a)
        \<and> (map_of kvs ''time'' = None
           \<or> (\<exists>t. map_of kvs ''time'' = Some (JStr t) \<and> fromisoformat lib (replace_Z t) = None)
           \<or> (\<exists>t dt. map_of kvs ''time'' = Some (JStr t)
                 \<and> fromisoformat lib (replace_Z t) = Some dt \<and> map_of kvs ''status'' = None))"
  then show "\<exists>e. except_parse e
             \<and> try_body lib (JDict kvs) (all_rows_for_gsheet, table_rows_for_discord) =
                 ((all_rows_for_gsheet, table_rows_for_discord @ [ljust 10 i @ ''| '' @ rjust 10 b @ '' | '' @ rjust 10 a]),
                  Some e)"
    by (auto simp: try_body_def display_part_def first_price_def sheet_part_def bind_def
        discord_row_def except_parse_def)
qed

theorem display_rows_at_least_sheet_rows_witness:
  "snd (monitor_and_report (sample_config ''EUR_USD,USD_JPY'') sample_lib
       (sample_world (sample_response [sample_quote ''EUR_USD'' ''2024-05-06T07:08:09Z'',
          sample_quote ''USD_JPY'' ''yesterday'']) None None)) =
     Inr (Report [sample_sheet_row ''EUR_USD'' ''2024-05-06 07:08:09'']
       [''EUR_USD   |     1.0712 |     1.0714'', ''USD_JPY   |     1.0712 |     1.0714''] 1
       (report_embed (sample_config ''EUR_USD,USD_JPY'') ''2024-05-06T07:08:10+00:00'' 1
          [sample_sheet_row ''EUR_USD'' ''2024-05-06 07:08:09'']
          [''EUR_USD   |     1.0712 |     1.0714'', ''USD_JPY   |     1.0712 |     1.0714'']))
   \<and> length [sample_sheet_row ''EUR_USD'' ''2024-05-06 07:08:09'']
       \<le> length [''EUR_USD   |     1.0712 |     1.0714'', ''USD_JPY   |     1.0712 |     1.0714'']
   \<and> fromisoformat sample_lib (replace_Z ''yesterday'') = None
   \<and> fst (try_body sample_lib (sample_quote ''USD_JPY'' ''yesterday'') ([], [])) =
       ([], [''USD_JPY   |     1.0712 |     1.0714''])"
proof -
  let ?run = "monitor_and_report (sample_config ''EUR_USD,USD_JPY'') sample_lib
       (sample_world (sample_response [sample_quote ''EUR_USD'' ''2024-05-06T07:08:09Z'',
          sample_quote ''USD_JPY'' ''yesterday'']) None None)"
  let ?rows = "[sample_sheet_row ''EUR_USD'' ''2024-05-06 07:08:09'']"
  let ?table = "[''EUR_USD   |     1.0712 |     1.0714'', ''USD_JPY   |     1.0712 |     1.0714'']"
  let ?em = "report_embed (sample_config ''EUR_USD,USD_JPY'') ''2024-05-06T07:08:10+00:00'' 1
          ?rows ?table"
  let ?kvs = "[(''instrument'', JStr ''USD_JPY''),
            (''bids'', JList [JDict [(''price'', JStr ''1.0712'')]]),
            (''asks'', JList [JDict [(''price'', JStr ''1.0714'')]]),
            (''status'', JStr ''tradeable''),
            (''time'', JStr ''yesterday'')]"
  have run: "snd ?run = Inr (Report ?rows ?table 1 ?em)"
    by code_simp
  then have run': "?run = (fst ?run, Inr (Report ?rows ?table 1 ?em))"
    by (simp add: prod_eq_iff)
  have t: "fromisoformat sample_lib (replace_Z ''yesterday'') = None"
    by code_simp
  have r: "ljust 10 ''USD_JPY'' @ ''| '' @ rjust 10 ''1.0712'' @ '' | '' @ rjust 10 ''1.0714''
      = ''USD_JPY   |     1.0712 |     1.0714''"
    by code_simp
  note inst = display_rows_at_least_sheet_rows [where cfg = "sample_config ''EUR_USD,USD_JPY''"
      and lib = sample_lib and tr' = "fst ?run" and rows' = ?rows and table' = ?table
      and w = 1 and em = ?em and kvs = ?kvs and i = "''USD_JPY''" and b = "''1.0712''"
      and a = "''1.0714''" and bid = "[(''price'', JStr ''1.0712'')]"
      and ask = "[(''price'', JStr ''1.0714'')]" and bids = "[]" and asks = "[]"
      and all_rows_for_gsheet = "[]" and table_rows_for_discord = "[]"
      and world = "sample_world (sample_response [sample_quote ''EUR_USD'' ''2024-05-06T07:08:09Z'',
          sample_quote ''USD_JPY'' ''yesterday'']) None None"]
  from inst run' have len: "length ?rows \<le> length ?table"
    by blast
  have "\<exists>e. except_parse e
      \<and> try_body sample_lib (JDict ?kvs) ([], []) =
          (([], [] @ [ljust 10 ''USD_JPY'' @ ''| '' @ rjust 10 ''1.0712'' @ '' | ''
             @ rjust 10 ''1.0714'']), Some e)"
    using inst t by simp
  then have "fst (try_body sample_lib (sample_quote ''USD_JPY'' ''yesterday'') ([], [])) =
       ([], [''USD_JPY   |     1.0712 |     1.0714''])"
    unfolding sample_quote_def r by auto
  with run len t show ?thesis
    by blast
qed

section \<open>Failure of the request to the provider\<close>

text \<open>
  C6. When the request to the provider raises, the cycle does nothing but send the
  failure embed: no record is transformed, the sink is not called and no report is
  built. But the send is not guarded. When it raises too, the cycle does not end and
  hand control back for the next tick: the exception of the send leaves
  \<open>monitor_and_report\<close>, in both versions.
\<close>

theorem failed_failure_send_ends_the_cycle_by_raising:
  "monitor_and_report (sample_config ''EUR_USD'') sample_lib
       (sample_world (Inl ''timeout'') None (Some ''no route to host'')) =
      ([Logging INFO ''Starting data fetch for 1 instruments.'' None,
        OandaRequest ''101-001'' ''EUR_USD'',
        Logging ERROR ''OANDA API request failed: '' (Some (LibraryError ''timeout'')),
        ChannelSend
          \<lparr>title = ''OANDA API Failure'',
           description = Some (''Could not fetch data. Error: '' @ [CHR 0x60] @ ''timeout''
             @ [CHR 0x60]),
           color = red, timestamp = None, embed_fields = [], footer = None\<rparr>],
       Inl (LibraryError ''no route to host''))
   \<and> monitor_and_report3 (sample_config ''EUR_USD'') sample_lib
       (sample_world (Inl ''timeout'') None (Some ''no route to host'')) =
      ([OandaRequest ''101-001'' ''EUR_USD'',
        ChannelSend
          \<lparr>title = ''OANDA API Failure'',
           description = Some (''Error: '' @ [CHR 0x60] @ ''timeout'' @ [CHR 0x60]),
           color = red, timestamp = None, embed_fields = [], footer = None\<rparr>],
       Inl (LibraryError ''no route to host''))"
  by code_simp

section \<open>Isolation of the records of a batch\<close>

text \<open>
  C3, as the claim states it, fails: a record whose timestamp does not parse is not left
  out of the display. In both versions the loop keeps the DisplayRow of such a record.
\<close>

theorem unparseable_time_keeps_display_row:
  "fromisoformat sample_lib (replace_Z ''yesterday'') = None
   \<and> price_loop except_parse ''Could not parse price data for an instrument. Error: ''
       sample_lib [sample_quote ''USD_JPY'' ''yesterday''] ([], []) =
     ([Logging WARNING ''Could not parse price data for an instrument. Error: ''
         (Some ValueError)],
      ([], [''USD_JPY   |     1.0712 |     1.0714'']), None)
   \<and> price_loop except_Exception ''Could not parse price data. Error: ''
       sample_lib [sample_quote ''USD_JPY'' ''yesterday''] ([], []) =
     ([Logging WARNING ''Could not parse price data. Error: '' (Some ValueError)],
      ([], [''USD_JPY   |     1.0712 |     1.0714'']), None)"
  by code_simp

text \<open>
  C3, amended. Take a batch of records of the provider's shape, any part of which may be
  missing (a missing key, an empty list of bids or asks, a timestamp that does not
  parse); in version 3 take any batch at all. The loop never aborts. The SheetRows are
  those of the records that hold instrument, first bid, first ask, a timestamp that
  parses and a status, in the order of the batch; the DisplayRows are those of the
  records that hold instrument, first bid and first ask. So a record that lacks one of
  these three adds nothing, a record that fails on its time or status adds its
  DisplayRow only, and the other records are transformed as if the failing one were
  absent. One warning is logged for each failing record, and the records that raise
  nothing are exactly those that give a SheetRow.
\<close>

theorem batch_isolation:
  "((\<forall>pd\<in>set prices. provider_shaped pd)
      \<longrightarrow> price_loop except_parse warning lib prices ([], []) =
            (map (\<lambda>e. Logging WARNING warning (Some e)) (List.map_filter (raised lib) prices),
             (List.map_filter (sheet_row_of lib) prices, List.map_filter display_row_of prices),
             None))
   \<and> price_loop except_Exception warning lib prices ([], []) =
       (map (\<lambda>e. Logging WARNING warning (Some e)) (List.map_filter (raised lib) prices),
        (List.map_filter (sheet_row_of lib) prices, List.map_filter display_row_of prices),
        None)
   \<and> (raised lib pd = None) = (sheet_row_of lib pd \<noteq> None)"
proof (intro conjI impI)
  assume "\<forall>pd\<in>set prices. provider_shaped pd"
  then have "\<forall>pd\<in>set prices. case raised lib pd of None \<Rightarrow> True | Some e \<Rightarrow> except_parse e"
    by (simp add: provider_shaped_raised)
  from price_loop_rows [OF this, where rows = "[]" and table = "[]"]
  show "price_loop except_parse warning lib prices ([], []) =
            (map (\<lambda>e. Logging WARNING warning (Some e)) (List.map_filter (raised lib) prices),
             (List.map_filter (sheet_row_of lib) prices, List.map_filter display_row_of prices),
             None)"
    by simp
next
  have "\<forall>pd\<in>set prices. case raised lib pd of None \<Rightarrow> True | Some e \<Rightarrow> except_Exception e"
    by (simp add: except_Exception_def split: option.splits)
  from price_loop_rows [OF this, where rows = "[]" and table = "[]"]
  show "price_loop except_Exception warning lib prices ([], []) =
       (map (\<lambda>e. Logging WARNING warning (Some e)) (List.map_filter (raised lib) prices),
        (List.map_filter (sheet_row_of lib) prices, List.map_filter display_row_of prices),
        None)"
    by simp
next
  show "(raised lib pd = None) = (sheet_row_of lib pd \<noteq> None)"
    by (rule raised_None_iff)
qed

theorem batch_isolation_witness:
  "price_loop except_parse ''Could not parse price data for an instrument. Error: '' sample_lib
     [sample_quote ''EUR_USD'' ''2024-05-06T07:08:09Z'', sample_quote ''USD_JPY'' ''yesterday'',
      quote_without_bids, quote_with_empty_asks, sample_quote ''USD_CAD'' ''2024-05-06T07:08:09Z'']
     ([], []) =
   ([Logging WARNING ''Could not parse price data for an instrument. Error: '' (Some ValueError),
     Logging WARNING ''Could not parse price data for an instrument. Error: '' (Some KeyError),
     Logging WARNING ''Could not parse price data for an instrument. Error: '' (Some IndexError)],
    ([sample_sheet_row ''EUR_USD'' ''2024-05-06 07:08:09'',
      sample_sheet_row ''USD_CAD'' ''2024-05-06 07:08:09''],
     [''EUR_USD   |     1.0712 |     1.0714'', ''USD_JPY   |     1.0712 |     1.0714'',
      ''USD_CAD   |     1.0712 |     1.0714'']),
    None)"
proof -
  let ?prices = "[sample_quote ''EUR_USD'' ''2024-05-06T07:08:09Z'',
      sample_quote ''USD_JPY'' ''yesterday'', quote_without_bids, quote_with_empty_asks,
      sample_quote ''USD_CAD'' ''2024-05-06T07:08:09Z'']"
  have h: "\<forall>pd\<in>set ?prices. provider_shaped pd"
    by code_simp
  have e: "List.map_filter (raised sample_lib) ?prices = [ValueError, KeyError, IndexError]"
    by code_simp
  have s: "List.map_filter (sheet_row_of sample_lib) ?prices =
      [sample_sheet_row ''EUR_USD'' ''2024-05-06 07:08:09'',
       sample_sheet_row ''USD_CAD'' ''2024-05-06 07:08:09'']"
    by code_simp
  have d: "List.map_filter display_row_of ?prices =
      [''EUR_USD   |     1.0712 |     1.0714'', ''USD_JPY   |     1.0712 |     1.0714'',
       ''USD_CAD   |     1.0712 |     1.0714'']"
    by code_simp
  from batch_isolation [where prices = ?prices and lib = sample_lib] h show ?thesis
    unfolding e s d by simp
qed

section \<open>The counts of a cycle\<close>

text \<open>
  C5, as the claim states it, fails: the cycle parses as many quotes as the provider
  returns valid records, whatever was requested. One instrument requested and two
  records returned give two parsed quotes, in both versions.
\<close>

theorem more_quotes_than_instruments:
  "length (INSTRUMENTS_LIST (sample_config ''EUR_USD'')) = 1
   \<and> at_end cycle_quotes_parsed
        (monitor_and_report (sample_config ''EUR_USD'') sample_lib
          (sample_world (sample_response [sample_quote ''EUR_USD'' ''2024-05-06T07:08:09Z'',
             sample_quote ''USD_JPY'' ''2024-05-06T07:08:09Z'']) None None)) = Some 2
   \<and> at_end cycle_quotes_parsed
        (monitor_and_report3 (sample_config ''EUR_USD'') sample_lib
          (sample_world (sample_response [sample_quote ''EUR_USD'' ''2024-05-06T07:08:09Z'',
             sample_quote ''USD_JPY'' ''2024-05-06T07:08:09Z'']) None None)) = Some 2"
  by code_simp

text \<open>
  C5, amended. In every cycle of either version that ends with a report, the rows
  written are at most the quotes parsed, and are either none or all of them; they are
  none when no quote was parsed, when there is no spreadsheet client, or when the sheet
  does not open or the append fails. The quotes parsed are at most the records the
  provider returned, so they are at most the instruments requested whenever the provider
  returned no more records than that.
\<close>

theorem cycle_counts:
  assumes "monitor_and_report cfg lib world = (tr, Inr (Report rows table w em))
         \<or> monitor_and_report3 cfg lib world = (tr, Inr (Report rows table w em))"
  shows "w \<le> length rows
    \<and> (w = 0 \<or> w = length rows)
    \<and> (rows = [] \<or> \<not> gspread_client world \<or> sink_fails world (GOOGLE_SHEET_NAME cfg) rows
         \<longrightarrow> w = 0)
    \<and> (\<exists>response prices. oanda_request world = Inr response \<and> prices_of response = Inr prices
         \<and> length rows \<le> length prices
         \<and> (length prices \<le> length (INSTRUMENTS_LIST cfg)
              \<longrightarrow> length rows \<le> length (INSTRUMENTS_LIST cfg)))"
proof -
  from assms obtain response prices c m tr0 where
    req: "oanda_request world = Inr response" "prices_of response = Inr prices"
    and loop: "price_loop c m lib prices ([], []) = (tr0, (rows, table), None)"
    and sink: "if gspread_client world
        then snd (append_bulk_to_sheet world True (GOOGLE_SHEET_NAME cfg) rows) = Inr w
           \<or> snd (append_bulk_to_sheet3 world True (GOOGLE_SHEET_NAME cfg) rows) = Inr w
        else w = 0"
    using monitor_and_report_Report [of cfg lib world tr rows table w em]
      monitor_and_report3_Report [of cfg lib world tr rows table w em]
    by (auto split: if_splits)
  have count: "(w = 0 \<or> w = length rows)
      \<and> (rows = [] \<or> \<not> gspread_client world \<or> sink_fails world (GOOGLE_SHEET_NAME cfg) rows
           \<longrightarrow> w = 0)"
    using sink append_bulk_to_sheet_count [of world True "GOOGLE_SHEET_NAME cfg" rows]
      append_bulk_to_sheet3_count [of world True "GOOGLE_SHEET_NAME cfg" rows]
    by (auto split: if_splits)
  from price_loop_lengths [OF loop] have "length rows \<le> length prices"
    by simp
  with req count show ?thesis
    by auto
qed

theorem cycle_counts_witness:
  "snd (monitor_and_report (sample_config ''EUR_USD,USD_JPY'') sample_lib
       (sample_world (sample_response [sample_quote ''EUR_USD'' ''2024-05-06T07:08:09Z'',
          sample_quote ''USD_JPY'' ''yesterday'']) (Some ''quota exceeded'') None)) =
     Inr (Report [sample_sheet_row ''EUR_USD'' ''2024-05-06 07:08:09'']
       [''EUR_USD   |     1.0712 |     1.0714'', ''USD_JPY   |     1.0712 |     1.0714''] 0
       (report_embed (sample_config ''EUR_USD,USD_JPY'') ''2024-05-06T07:08:10+00:00'' 0
          [sample_sheet_row ''EUR_USD'' ''2024-05-06 07:08:09'']
          [''EUR_USD   |     1.0712 |     1.0714'', ''USD_JPY   |     1.0712 |     1.0714'']))
   \<and> (0::nat) \<le> length [sample_sheet_row ''EUR_USD'' ''2024-05-06 07:08:09'']
   \<and> length [sample_sheet_row ''EUR_USD'' ''2024-05-06 07:08:09'']
       \<le> length (INSTRUMENTS_LIST (sample_config ''EUR_USD,USD_JPY''))"
proof -
  let ?world = "sample_world (sample_response [sample_quote ''EUR_USD'' ''2024-05-06T07:08:09Z'',
          sample_quote ''USD_JPY'' ''yesterday'']) (Some ''quota exceeded'') None"
  let ?cfg = "sample_config ''EUR_USD,USD_JPY''"
  let ?run = "monitor_and_report ?cfg sample_lib ?world"
  let ?rows = "[sample_sheet_row ''EUR_USD'' ''2024-05-06 07:08:09'']"
  let ?table = "[''EUR_USD   |     1.0712 |     1.0714'', ''USD_JPY   |     1.0712 |     1.0714'']"
  let ?em = "report_embed ?cfg ''2024-05-06T07:08:10+00:00'' 0 ?rows ?table"
  have run: "snd ?run = Inr (Report ?rows ?table 0 ?em)"
    by code_simp
  then have "?run = (fst ?run, Inr (Report ?rows ?table 0 ?em))
      \<or> monitor_and_report3 ?cfg sample_lib ?world = (fst ?run, Inr (Report ?rows ?table 0 ?em))"
    by (simp add: prod_eq_iff)
  from cycle_counts [OF this] obtain response prices where
    c: "(0::nat) \<le> length ?rows" "oanda_request ?world = Inr response"
      "prices_of response = Inr prices"
      "length prices \<le> length (INSTRUMENTS_LIST ?cfg)
         \<longrightarrow> length ?rows \<le> length (INSTRUMENTS_LIST ?cfg)"
    by blast
  have "oanda_request ?world = Inr (JDict [(''prices'',
      JList [sample_quote ''EUR_USD'' ''2024-05-06T07:08:09Z'', sample_quote ''USD_JPY'' ''yesterday''])])"
    by (simp add: sample_world_def sample_response_def)
  with c(2) have "response = JDict [(''prices'',
      JList [sample_quote ''EUR_USD'' ''2024-05-06T07:08:09Z'', sample_quote ''USD_JPY'' ''yesterday''])]"
    by simp
  with c(3) have "length prices = 2"
    by (auto simp: prices_of_def bind_def)
  moreover have "length (INSTRUMENTS_LIST ?cfg) = 2"
    by code_simp
  ultimately have "length ?rows \<le> length (INSTRUMENTS_LIST ?cfg)"
    using c(4) by simp
  with run c(1) show ?thesis
    by blast
qed

section \<open>The format of the table\<close>

text \<open>
  C8, as the claim states it, fails on the word "truncated": an instrument of more than
  ten characters is rendered in full, where a field cut to ten characters would end
  after the tenth. Up to ten characters the two agree.
\<close>

theorem long_instrument_not_truncated:
  "try_body sample_lib (sample_quote ''NATGAS_USD_X'' ''2024-05-06T07:08:09Z'') ([], []) =
     (([sample_sheet_row ''NATGAS_USD_X'' ''2024-05-06 07:08:09''],
       [''NATGAS_USD_X|     1.0712 |     1.0714'']), None)
   \<and> padded_or_truncated 10 ''NATGAS_USD_X'' = ''NATGAS_USD''
   \<and> ljust 10 ''NATGAS_USD_X'' = ''NATGAS_USD_X''
   \<and> padded_or_truncated 10 ''EUR_USD'' = ljust 10 ''EUR_USD''"
  by code_simp

text \<open>
  C8, amended. The row that a record adds to the display is its instrument filled with
  spaces on the right to at least 10 characters and never cut, then \<open>"| "\<close>, the bid
  filled on the left to at least 10, \<open>" | "\<close>, and the ask filled on the left to at
  least 10; a record without instrument, first bid or first ask adds no row. The header
  is \<open>Instrument\<close> at width 10 and \<open>BID\<close> and \<open>ASK\<close> at width 11 with the same
  separators, and the separator line is as many dashes as the header is long.
\<close>

theorem display_row_format:
  "snd (fst (try_body lib price_data (all_rows_for_gsheet, table_rows_for_discord))) =
     table_rows_for_discord @
       (case (the_instrument price_data, the_price ''bids'' price_data,
              the_price ''asks'' price_data) of
          (Some i, Some b, Some a) \<Rightarrow>
            [ljust 10 i @ ''| '' @ rjust 10 b @ '' | '' @ rjust 10 a]
        | _ \<Rightarrow> [])
   \<and> ljust n s = s @ replicate (n - length s) (CHR '' '')
   \<and> rjust n s = replicate (n - length s) (CHR '' '') @ s
   \<and> length (ljust n s) = max n (length s)
   \<and> length (rjust n s) = max n (length s)
   \<and> header = ljust 10 ''Instrument'' @ ''| '' @ rjust 11 ''BID'' @ '' | '' @ rjust 11 ''ASK''
   \<and> header = ''Instrument|         BID |         ASK''
   \<and> separator = replicate (length header) (CHR ''-'')
   \<and> length separator = length header"
proof -
  have "snd (fst (try_body lib price_data (all_rows_for_gsheet, table_rows_for_discord))) =
      table_rows_for_discord @
        (case display_row_of price_data of None \<Rightarrow> [] | Some d \<Rightarrow> [d])"
    by (simp add: try_body_rows)
  also have "(case display_row_of price_data of None \<Rightarrow> [] | Some d \<Rightarrow> [d]) =
      (case (the_instrument price_data, the_price ''bids'' price_data,
              the_price ''asks'' price_data) of
          (Some i, Some b, Some a) \<Rightarrow>
            [ljust 10 i @ ''| '' @ rjust 10 b @ '' | '' @ rjust 10 a]
        | _ \<Rightarrow> [])"
    by (simp add: display_row_of_def discord_row_def split: option.splits)
  finally have row: "snd (fst (try_body lib price_data (all_rows_for_gsheet, table_rows_for_discord))) =
     table_rows_for_discord @
       (case (the_instrument price_data, the_price ''bids'' price_data,
              the_price ''asks'' price_data) of
          (Some i, Some b, Some a) \<Rightarrow>
            [ljust 10 i @ ''| '' @ rjust 10 b @ '' | '' @ rjust 10 a]
        | _ \<Rightarrow> [])" .
  have h: "header = ''Instrument|         BID |         ASK''"
    by code_simp
  have p: "ljust n s = s @ replicate (n - length s) (CHR '' '')"
    "rjust n s = replicate (n - length s) (CHR '' '') @ s"
    by (simp_all add: ljust_def rjust_def)
  have d: "header = ljust 10 ''Instrument'' @ ''| '' @ rjust 11 ''BID'' @ '' | '' @ rjust 11 ''ASK''"
    "separator = replicate (length header) (CHR ''-'')"
    by (simp_all only: header_def separator_def)
  have "length separator = length header"
    by (simp only: d(2) length_replicate)
  with row h p d length_ljust [of n s] length_rjust [of n s] show ?thesis
    by blast
qed

theorem display_row_format_witness:
  "snd (fst (try_body sample_lib (sample_quote ''NATGAS_USD_X'' ''2024-05-06T07:08:09Z'')
      ([], [header, separator]))) =
     [''Instrument|         BID |         ASK'', ''-------------------------------------'',
      ''NATGAS_USD_X|     1.0712 |     1.0714'']"
proof -
  have i: "the_instrument (sample_quote ''NATGAS_USD_X'' ''2024-05-06T07:08:09Z'')
      = Some ''NATGAS_USD_X''"
    and b: "the_price ''bids'' (sample_quote ''NATGAS_USD_X'' ''2024-05-06T07:08:09Z'')
      = Some ''1.0712''"
    and a: "the_price ''asks'' (sample_quote ''NATGAS_USD_X'' ''2024-05-06T07:08:09Z'')
      = Some ''1.0714''"
    by code_simp+
  have s: "replicate (length ''Instrument|         BID |         ASK'') (CHR ''-'') =
      ''-------------------------------------''"
    by code_simp
  note f = display_row_format [of sample_lib
      "sample_quote ''NATGAS_USD_X'' ''2024-05-06T07:08:09Z''" "[]" "[header, separator]"]
  from f have "snd (fst (try_body sample_lib
      (sample_quote ''NATGAS_USD_X'' ''2024-05-06T07:08:09Z'') ([], [header, separator]))) =
      [header, separator] @ [ljust 10 ''NATGAS_USD_X'' @ ''| '' @ rjust 10 ''1.0712'' @ '' | ''
      @ rjust 10 ''1.0714'']"
    unfolding i b a by simp
  note t = this
  from f have hd: "header = ''Instrument|         BID |         ASK''"
    by blast
  from f have sp: "separator = replicate (length header) (CHR ''-'')"
    by blast
  have sp': "separator = ''-------------------------------------''"
    by (simp only: sp hd s)
  have j: "ljust 10 ''NATGAS_USD_X'' = ''NATGAS_USD_X''" "rjust 10 ''1.0712'' = ''    1.0712''"
    "rjust 10 ''1.0714'' = ''    1.0714''"
    by code_simp+
  show ?thesis
    unfolding t by (simp add: hd sp' j)
qed

section \<open>Where the versions leave the specification\<close>

text \<open>
  C1. Version 3 colours the report green as soon as one row was written: with two
  instruments requested and one row written its report is green, where the claim, and
  version 2.1 on the same input, give orange.
\<close>

theorem bot3_partial_write_is_green:
  "length (INSTRUMENTS_LIST (sample_config ''EUR_USD,USD_JPY'')) = 2
   \<and> at_end cycle_rows_written
        (monitor_and_report3 (sample_config ''EUR_USD,USD_JPY'') sample_lib
          (sample_world (sample_response [sample_quote ''EUR_USD'' ''2024-05-06T07:08:09Z''])
             None None)) = Some 1
   \<and> map_option color (at_end cycle_embed
        (monitor_and_report3 (sample_config ''EUR_USD,USD_JPY'') sample_lib
          (sample_world (sample_response [sample_quote ''EUR_USD'' ''2024-05-06T07:08:09Z''])
             None None))) = Some green
   \<and> map_option color (at_end cycle_embed
        (monitor_and_report (sample_config ''EUR_USD,USD_JPY'') sample_lib
          (sample_world (sample_response [sample_quote ''EUR_USD'' ''2024-05-06T07:08:09Z''])
             None None))) = Some orange"
  by code_simp

text \<open>
  C7. When the request to the provider raises and the send of the failure embed raises
  too, the exception of the send leaves the cycle, in both versions; in version 3 a
  failed send of the report leaves the cycle as well. Version 2.1 catches the failed
  send of the report and ends the cycle normally.
\<close>

theorem send_failure_escapes:
  "snd (monitor_and_report (sample_config ''EUR_USD'') sample_lib
      (sample_world (Inl ''timeout'') None (Some ''no route to host''))) =
     Inl (LibraryError ''no route to host'')
   \<and> snd (monitor_and_report3 (sample_config ''EUR_USD'') sample_lib
      (sample_world (Inl ''timeout'') None (Some ''no route to host''))) =
     Inl (LibraryError ''no route to host'')
   \<and> snd (monitor_and_report3 (sample_config ''EUR_USD'') sample_lib
      (sample_world (sample_response [sample_quote ''EUR_USD'' ''2024-05-06T07:08:09Z''])
         None (Some ''no route to host''))) =
     Inl (LibraryError ''no route to host'')
   \<and> at_end cycle_rows_written (monitor_and_report (sample_config ''EUR_USD'') sample_lib
      (sample_world (sample_response [sample_quote ''EUR_USD'' ''2024-05-06T07:08:09Z''])
         None (Some ''no route to host''))) = Some 1"
  by code_simp

text \<open>
  C9. When the provider returns no price record, the report of version 3 has no
  description and no table, only the two counters; version 2.1 sets the description
  that says no data was returned.
\<close>

theorem bot3_no_data_message_missing:
  "at_end cycle_embed (monitor_and_report3 (sample_config ''EUR_USD'') sample_lib
      (sample_world (sample_response []) None None)) =
     Some \<lparr>title = ''OANDA Price Report'', description = None, color = orange,
            timestamp = Some ''2024-05-06T07:08:10+00:00'',
            embed_fields = [(''Instruments Fetched'', counter 0, True),
                            (''Rows Written to GSheet'', counter 0, True)],
            footer = None\<rparr>
   \<and> map_option description (at_end cycle_embed
        (monitor_and_report (sample_config ''EUR_USD'') sample_lib
          (sample_world (sample_response []) None None))) =
     Some (Some ''No price data was returned from the API.'')"
  by code_simp

end
